theory Spec2Isabelle
  imports Complex_Main "HOL-Library.AList"
begin

section \<open>Python values\<close>

text \<open>
  A Python float is a finite double, one of the two infinities, or NaN. A finite double is
  identified with the real number it denotes exactly. Every comparison with NaN is false,
  as in Python.
\<close>

datatype pyfloat = Fin real | PInf | NInf | NaN

fun float_lt :: "pyfloat \<Rightarrow> pyfloat \<Rightarrow> bool" where
  "float_lt NaN _ = False"
| "float_lt _ NaN = False"
| "float_lt (Fin a) (Fin b) = (a < b)"
| "float_lt (Fin _) PInf = True"
| "float_lt (Fin _) NInf = False"
| "float_lt PInf _ = False"
| "float_lt NInf (Fin _) = True"
| "float_lt NInf PInf = True"
| "float_lt NInf NInf = False"

fun float_le :: "pyfloat \<Rightarrow> pyfloat \<Rightarrow> bool" where
  "float_le NaN _ = False"
| "float_le _ NaN = False"
| "float_le (Fin a) (Fin b) = (a \<le> b)"
| "float_le (Fin _) PInf = True"
| "float_le (Fin _) NInf = False"
| "float_le PInf PInf = True"
| "float_le PInf _ = False"
| "float_le NInf _ = True"

text \<open>
  A decimal literal of the source denotes the double nearest to it, not the decimal
  itself. \<open>is_double_of lit m e\<close> says that the double with the 53-bit significand \<open>m\<close>
  and value \<open>m / 2^e\<close> lies within half a unit in the last place of \<open>lit\<close>, so that it is
  the double Python reads \<open>lit\<close> as. The literals of the source follow, each with its
  exact value.
\<close>

definition is_double_of :: "real \<Rightarrow> int \<Rightarrow> nat \<Rightarrow> bool" where
  "is_double_of lit m e =
     (2 ^ 52 \<le> m \<and> m < 2 ^ 53 \<and> \<bar>lit - of_int m / 2 ^ e\<bar> * 2 ^ (e + 1) < 1)"

definition double_0_3 :: real where
  "double_0_3 = 5404319552844595 / 2 ^ 54"

definition double_0_6 :: real where
  "double_0_6 = 5404319552844595 / 2 ^ 53"

definition double_0_8 :: real where
  "double_0_8 = 7205759403792794 / 2 ^ 53"

definition double_0_29 :: real where
  "double_0_29 = 5224175567749775 / 2 ^ 54"

definition double_0_59 :: real where
  "double_0_59 = 5314247560297185 / 2 ^ 53"

definition double_0_79 :: real where
  "double_0_79 = 7115687411245384 / 2 ^ 53"

definition double_0_001 :: real where
  "double_0_001 = 4611686018427388 / 2 ^ 62"

section \<open>Risk levels\<close>

text \<open>\<^verbatim>\<open>ModelRiskService._categorize_risk\<close> (modelrisque/app/main.py).\<close>

definition categorize_risk :: "pyfloat \<Rightarrow> string" where
  "categorize_risk risk_score =
     (if float_lt risk_score (Fin double_0_3) then ''LOW''
      else if float_lt risk_score (Fin double_0_6) then ''MODERATE''
      else if float_lt risk_score (Fin double_0_8) then ''HIGH''
      else ''CRITICAL'')"

text \<open>\<^verbatim>\<open>categorize_risk_level\<close> (scoreapi/app/main.py).\<close>

definition categorize_risk_level :: "pyfloat \<Rightarrow> string" where
  "categorize_risk_level risk_score =
     (if float_lt risk_score (Fin double_0_3) then ''LOW''
      else if float_lt risk_score (Fin double_0_6) then ''MODERATE''
      else if float_lt risk_score (Fin double_0_8) then ''HIGH''
      else ''CRITICAL'')"

fun float_sub :: "pyfloat \<Rightarrow> pyfloat \<Rightarrow> pyfloat" where
  "float_sub NaN _ = NaN"
| "float_sub _ NaN = NaN"
| "float_sub (Fin a) (Fin b) = Fin (a - b)"
| "float_sub (Fin _) PInf = NInf"
| "float_sub (Fin _) NInf = PInf"
| "float_sub PInf PInf = NaN"
| "float_sub PInf _ = PInf"
| "float_sub NInf NInf = NaN"
| "float_sub NInf _ = NInf"

fun float_abs :: "pyfloat \<Rightarrow> pyfloat" where
  "float_abs (Fin a) = Fin \<bar>a\<bar>"
| "float_abs PInf = PInf"
| "float_abs NInf = PInf"
| "float_abs NaN = NaN"

text \<open>
  The values a decoded JSON message can hold. A dict is an association list in insertion
  order, with distinct keys.
\<close>

datatype pyval =
    PNone
  | PBool bool
  | PInt int
  | PFloat pyfloat
  | PStr string
  | PList "pyval list"
  | PDict "(string \<times> pyval) list"

datatype py_error = OverflowError | TypeError | ValueError | IndexError | AttributeError
  | LibraryError

text \<open>\<^verbatim>\<open>int.bit_length()\<close> of a non-negative int.\<close>

function bit_length :: "nat \<Rightarrow> nat" where
  "bit_length n = (if n = 0 then 0 else Suc (bit_length (n div 2)))"
  by pat_completeness auto
termination
  by (relation "measure id") auto

text \<open>
  The double nearest to a non-negative int, ties to the even significand: an int of at
  most 53 bits is kept; a longer one loses its low \<open>e\<close> bits, rounded half to even.
\<close>

definition round_half_even_53 :: "nat \<Rightarrow> nat" where
  "round_half_even_53 m =
     (if m < 2 ^ 53 then m
      else
        (let e = bit_length m - 53; q = m div 2 ^ e; r = m mod 2 ^ e
         in (if 2 ^ e < 2 * r \<or> (2 * r = 2 ^ e \<and> odd q) then q + 1 else q) * 2 ^ e))"

text \<open>
  \<^verbatim>\<open>float(n)\<close> on an int: the nearest double, and OverflowError when that lies beyond the
  largest double, that is when the magnitude of \<open>n\<close> reaches \<open>2^1024 - 2^970\<close>.
\<close>

definition float_of_int :: "int \<Rightarrow> py_error + pyfloat" where
  "float_of_int n =
     (if \<bar>n\<bar> \<ge> 2 ^ 1024 - 2 ^ 970 then Inl OverflowError
      else Inr (Fin (of_int (sgn n * int (round_half_even_53 (nat \<bar>n\<bar>))))))"

definition float_of_bool :: "bool \<Rightarrow> pyfloat" where
  "float_of_bool b = Fin (if b then 1 else 0)"

section \<open>Risk scoring engine (modelrisque/app/main.py)\<close>

text \<open>
  The trained artefacts and the Python built-ins the service calls are outside the
  repository; they are fields of the service record. A fallible call returns \<open>None\<close>
  where the library raises. \<open>scaler\<close>, \<open>model\<close> and \<open>explainer\<close> are \<open>None\<close> while the
  attribute is unset. \<open>predict_proba\<close> and \<open>shap_values\<close> give the first row of the
  library's result, the only one the service reads.
\<close>

record model_risk_service =
  feature_names :: "string list"
  scaler :: "(pyfloat list \<Rightarrow> pyfloat list option) option"
  model :: "(pyfloat list \<Rightarrow> pyfloat list option) option"
  explainer :: "(pyfloat list \<Rightarrow> pyfloat list option) option"
  float_of_str :: "string \<Rightarrow> pyfloat option"
  str_title :: "string \<Rightarrow> string"
  format_3f :: "pyfloat \<Rightarrow> string"

text \<open>
  Python's \<^verbatim>\<open>float(value)\<close>: a bool gives 1.0 or 0.0, an int its nearest double or
  OverflowError, a float itself, a string its parse or ValueError, and None, a list or a
  dict TypeError.
\<close>

fun py_float :: "model_risk_service \<Rightarrow> pyval \<Rightarrow> py_error + pyfloat" where
  "py_float svc (PBool b) = Inr (float_of_bool b)"
| "py_float svc (PInt n) = float_of_int n"
| "py_float svc (PFloat f) = Inr f"
| "py_float svc (PStr s) =
     (case float_of_str svc s of Some f \<Rightarrow> Inr f | None \<Rightarrow> Inl ValueError)"
| "py_float svc PNone = Inl TypeError"
| "py_float svc (PList _) = Inl TypeError"
| "py_float svc (PDict _) = Inl TypeError"

text \<open>\<^verbatim>\<open>isinstance(value, (int, float))\<close>, which also holds of a bool.\<close>

fun is_int_or_float :: "pyval \<Rightarrow> bool" where
  "is_int_or_float (PBool _) = True"
| "is_int_or_float (PInt _) = True"
| "is_int_or_float (PFloat _) = True"
| "is_int_or_float _ = False"

text \<open>
  The body of the \<^verbatim>\<open>for feature_name in self.feature_names\<close> loop of
  \<^verbatim>\<open>prepare_feature_vector\<close> for a present value. The first branch calls
  \<^verbatim>\<open>float(value)\<close> bare, so its OverflowError leaves the loop; the branch
  \<^verbatim>\<open>elif isinstance(value, bool)\<close> is never reached; only the last branch wraps
  \<^verbatim>\<open>float(value)\<close> in its own \<^verbatim>\<open>try\<close>, with 0.0 on any exception.
\<close>

definition feature_value :: "model_risk_service \<Rightarrow> pyval \<Rightarrow> py_error + pyfloat" where
  "feature_value svc v =
     (if is_int_or_float v then py_float svc v
      else if v = PNone then Inr (Fin 0)
      else (case py_float svc v of Inr x \<Rightarrow> Inr x | Inl e \<Rightarrow> Inr (Fin 0)))"

fun collect_features ::
  "model_risk_service \<Rightarrow> (string \<times> pyval) list \<Rightarrow> string list \<Rightarrow> pyfloat list
     \<Rightarrow> py_error + pyfloat list" where
  "collect_features svc features [] feature_vector = Inr feature_vector"
| "collect_features svc features (feature_name # rest) feature_vector =
     (case map_of features feature_name of
        Some v \<Rightarrow>
          (case feature_value svc v of
             Inl e \<Rightarrow> Inl e
           | Inr x \<Rightarrow> collect_features svc features rest (feature_vector @ [x]))
      | None \<Rightarrow> collect_features svc features rest (feature_vector @ [Fin 0]))"

text \<open>\<^verbatim>\<open>while len(feature_vector) < len(self.feature_names): feature_vector.append(0.0)\<close>\<close>

function pad_features :: "nat \<Rightarrow> pyfloat list \<Rightarrow> pyfloat list" where
  "pad_features n feature_vector =
     (if length feature_vector < n then pad_features n (feature_vector @ [Fin 0])
      else feature_vector)"
  by pat_completeness auto
termination
  by (relation "measure (\<lambda>(n, v). n - length v)") auto

definition zero_vector :: "nat \<Rightarrow> pyfloat list" where
  "zero_vector n = replicate n (Fin 0)"

text \<open>
  \<^verbatim>\<open>prepare_feature_vector\<close>: the one row of the returned array. Every exception of the
  body ends in the zero vector of the expected length.
\<close>

definition prepare_feature_vector ::
  "model_risk_service \<Rightarrow> (string \<times> pyval) list \<Rightarrow> pyfloat list" where
  "prepare_feature_vector svc features =
     (case collect_features svc features (feature_names svc) [] of
        Inl e \<Rightarrow> zero_vector (length (feature_names svc))
      | Inr fv \<Rightarrow>
          (let feature_array = pad_features (length (feature_names svc)) fv in
           case scaler svc of
             None \<Rightarrow> feature_array
           | Some transform \<Rightarrow>
               (case transform feature_array of
                  None \<Rightarrow> zero_vector (length (feature_names svc))
                | Some scaled \<Rightarrow> scaled)))"

text \<open>Python's \<^verbatim>\<open>max\<close> over a sequence: the first element, replaced by each greater one.\<close>

fun py_max :: "pyfloat list \<Rightarrow> py_error + pyfloat" where
  "py_max [] = Inl ValueError"
| "py_max (x # xs) = Inr (foldl (\<lambda>m y. if float_lt m y then y else m) x xs)"

text \<open>
  The loop that fills \<^verbatim>\<open>shap_explanation\<close>: a later assignment to a name already
  present replaces its value in place.
\<close>

fun fill_explanation ::
  "(string \<times> pyfloat) list \<Rightarrow> (string \<times> pyfloat) list \<Rightarrow> (string \<times> pyfloat) list" where
  "fill_explanation [] shap_explanation = shap_explanation"
| "fill_explanation ((feature_name, shap_value) # rest) shap_explanation =
     (if float_lt (Fin double_0_001) (float_abs shap_value)
      then fill_explanation rest (AList.update feature_name shap_value shap_explanation)
      else fill_explanation rest shap_explanation)"

text \<open>
  \<^verbatim>\<open>sorted(items, key=lambda x: abs(x[1]), reverse=True)\<close>: a stable sort on descending
  key. An item stays in front of every later item whose key is not strictly greater.
\<close>

fun insert_desc :: "string \<times> pyfloat \<Rightarrow> (string \<times> pyfloat) list \<Rightarrow> (string \<times> pyfloat) list" where
  "insert_desc x [] = [x]"
| "insert_desc x (y # ys) =
     (if float_lt (float_abs (snd x)) (float_abs (snd y)) then y # insert_desc x ys
      else x # y # ys)"

definition sorted_desc :: "(string \<times> pyfloat) list \<Rightarrow> (string \<times> pyfloat) list" where
  "sorted_desc items = foldr insert_desc items []"

text \<open>
  \<^verbatim>\<open>predict_risk\<close>. The steps inside the \<^verbatim>\<open>try\<close>, each of which may raise.
\<close>

definition predict_risk_body ::
  "model_risk_service \<Rightarrow> (string \<times> pyval) list
     \<Rightarrow> py_error + (pyfloat \<times> pyfloat \<times> (string \<times> pyfloat) list)" where
  "predict_risk_body svc features =
     (let feature_vector = prepare_feature_vector svc features in
      case model svc of
        None \<Rightarrow> Inl AttributeError
      | Some predict_proba \<Rightarrow>
          (case predict_proba feature_vector of
             None \<Rightarrow> Inl LibraryError
           | Some row \<Rightarrow>
               if length row < 2 then Inl IndexError
               else
                 (let risk_probability = row ! 1 in
                  case py_max row of
                    Inl e \<Rightarrow> Inl e
                  | Inr m \<Rightarrow>
                      (let confidence = float_sub m (Fin (1 / 2)) in
                       case explainer svc of
                         None \<Rightarrow> Inl AttributeError
                       | Some shap \<Rightarrow>
                           (case shap feature_vector of
                              None \<Rightarrow> Inl LibraryError
                            | Some shap_values \<Rightarrow>
                                Inr (risk_probability, confidence,
                                     sorted_desc
                                       (fill_explanation
                                          (zip (feature_names svc) shap_values) [])))))))"

definition predict_risk ::
  "model_risk_service \<Rightarrow> (string \<times> pyval) list
     \<Rightarrow> pyfloat \<times> pyfloat \<times> (string \<times> pyfloat) list" where
  "predict_risk svc features =
     (case predict_risk_body svc features of
        Inr result \<Rightarrow> result
      | Inl e \<Rightarrow> (Fin (1 / 2), Fin 0, []))"

text \<open>\<^verbatim>\<open>feature.replace('_', ' ')\<close>\<close>

definition underscores_to_spaces :: "string \<Rightarrow> string" where
  "underscores_to_spaces s = map (\<lambda>c. if c = CHR ''_'' then CHR '' '' else c) s"

text \<open>\<^verbatim>\<open>"; ".join(explanations)\<close>\<close>

fun join_semicolon :: "string list \<Rightarrow> string" where
  "join_semicolon [] = []"
| "join_semicolon [x] = x"
| "join_semicolon (x # y # ys) = x @ ''; '' @ join_semicolon (y # ys)"

definition explain_factor :: "model_risk_service \<Rightarrow> string \<times> pyfloat \<Rightarrow> string" where
  "explain_factor svc fc =
     (case fc of (feature, contribution) \<Rightarrow>
        if float_lt (Fin 0) contribution
        then str_title svc (underscores_to_spaces feature)
               @ '' increases risk (impact: '' @ format_3f svc contribution @ '')''
        else str_title svc (underscores_to_spaces feature)
               @ '' decreases risk (impact: '' @ format_3f svc contribution @ '')'')"

definition create_explanation_text ::
  "model_risk_service \<Rightarrow> (string \<times> pyfloat) list \<Rightarrow> string" where
  "create_explanation_text svc shap_values =
     (if shap_values = [] then ''No significant risk factors identified.''
      else
        (let explanations = map (explain_factor svc) (take 5 shap_values) in
         if explanations \<noteq> [] then ''Key risk factors: '' @ join_semicolon explanations
         else ''Risk assessment based on overall health profile.''))"

text \<open>\<^verbatim>\<open>str(n)\<close> of a non-negative int, as an f-string renders it.\<close>

definition digit_char :: "nat \<Rightarrow> char" where
  "digit_char d =
     (if d = 0 then CHR ''0'' else if d = 1 then CHR ''1'' else if d = 2 then CHR ''2''
      else if d = 3 then CHR ''3'' else if d = 4 then CHR ''4'' else if d = 5 then CHR ''5''
      else if d = 6 then CHR ''6'' else if d = 7 then CHR ''7'' else if d = 8 then CHR ''8''
      else CHR ''9'')"

function str_of_nat :: "nat \<Rightarrow> string" where
  "str_of_nat n =
     (if n < 10 then [digit_char n] else str_of_nat (n div 10) @ [digit_char (n mod 10)])"
  by pat_completeness auto
termination
  by (relation "measure id") auto

text \<open>
  The feature names of \<^verbatim>\<open>create_dummy_model\<close>: 22 literal names, extended with
  \<^verbatim>\<open>f'feature_{len(self.feature_names)}'\<close> up to \<^verbatim>\<open>n_features = 50\<close>.
\<close>

definition dummy_feature_names :: "string list" where
  "dummy_feature_names =
     [''age'', ''gender_male'', ''gender_female'',
      ''total_conditions'', ''active_conditions'', ''chronic_conditions'',
      ''total_medications'', ''active_medications'',
      ''heart_rate_mean'', ''blood_pressure_mean'', ''temperature_mean'',
      ''condition_cardiovascular'', ''condition_diabetes'', ''condition_respiratory'',
      ''medication_cardiovascular'', ''medication_diabetes'',
      ''entity_disease'', ''entity_symptom'', ''concept_cardiovascular'',
      ''biobert_emb_0'', ''biobert_emb_1'', ''biobert_emb_2'']
     @ map (\<lambda>i. ''feature_'' @ str_of_nat i) [22..<50]"

text \<open>
  The specification's reading of a position of the vector, in its own words. The value
  coerced to a number: a bool counts as 1 or 0, an int as its nearest double when it has
  one, a float as itself, a string as the number it parses to; None, a list, a dict, an
  int beyond the doubles and a string that does not parse are not coercible.
\<close>

fun coerced_number :: "model_risk_service \<Rightarrow> pyval \<Rightarrow> pyfloat option" where
  "coerced_number svc PNone = None"
| "coerced_number svc (PBool b) = Some (Fin (if b then 1 else 0))"
| "coerced_number svc (PInt k) =
     (if \<bar>k\<bar> < 2 ^ 1024 - 2 ^ 970
      then Some (Fin (of_int (sgn k * int (round_half_even_53 (nat \<bar>k\<bar>)))))
      else None)"
| "coerced_number svc (PFloat f) = Some f"
| "coerced_number svc (PStr s) = float_of_str svc s"
| "coerced_number svc (PList _) = None"
| "coerced_number svc (PDict _) = None"

text \<open>
  What the specification expects at the position of an expected name: the mapping's value
  coerced to a number if the name is present and coercible, and 0.0 if the name is absent,
  the value is None, or the coercion fails.
\<close>

definition expected_entry :: "model_risk_service \<Rightarrow> (string \<times> pyval) list \<Rightarrow> string \<Rightarrow> pyfloat" where
  "expected_entry svc features n =
     (case map_of features n of
        None \<Rightarrow> Fin 0
      | Some v \<Rightarrow> (case coerced_number svc v of Some x \<Rightarrow> x | None \<Rightarrow> Fin 0))"

text \<open>The scaling step applied to an unscaled row, as a function of its own.\<close>

definition scale_row :: "model_risk_service \<Rightarrow> pyfloat list \<Rightarrow> pyfloat list" where
  "scale_row svc raw =
     (case scaler svc of
        None \<Rightarrow> raw
      | Some transform \<Rightarrow>
          (case transform raw of
             None \<Rightarrow> zero_vector (length (feature_names svc))
           | Some scaled \<Rightarrow> scaled))"


definition significant :: "string \<times> pyfloat \<Rightarrow> bool" where
  "significant z = float_lt (Fin double_0_001) (float_abs (snd z))"

text \<open>
  A loaded service for examples: three expected names, a scaler that leaves a row as it
  is, a model whose class probabilities are 0.25 and 0.75, and an explainer whose
  contributions are 0.125, -0.5 and \<open>2^-20\<close>. In \<open>failing_service\<close> the explainer
  raises.
\<close>

definition sample_service :: model_risk_service where
  "sample_service = \<lparr>feature_names = [''age'', ''total_conditions'', ''heart_rate_mean''],
     scaler = Some (\<lambda>row. Some row),
     model = Some (\<lambda>v. Some [Fin (1 / 4), Fin (3 / 4)]),
     explainer = Some (\<lambda>v. Some [Fin (1 / 8), Fin (- (1 / 2)), Fin (1 / 2 ^ 20)]),
     float_of_str = (\<lambda>_. None), str_title = (\<lambda>s. s), format_3f = (\<lambda>_. [])\<rparr>"

definition failing_service :: model_risk_service where
  "failing_service = sample_service\<lparr>explainer := Some (\<lambda>v. None)\<rparr>"

section \<open>Feature extraction engine (featurizer/app/main.py)\<close>













section \<open>De-identification service (deid/app/main.py)\<close>

subsection \<open>Strings\<close>

text \<open>\<^verbatim>\<open>s.startswith(p)\<close>\<close>

definition startswith :: "string \<Rightarrow> string \<Rightarrow> bool" where
  "startswith s p = (take (length p) s = p)"

text \<open>
  \<^verbatim>\<open>s.replace(old, new)\<close> for a non-empty \<open>old\<close>: every occurrence, scanned from the
  left, is replaced. The service calls it with the prefixes of a reference only.
\<close>

function replace_all :: "string \<Rightarrow> string \<Rightarrow> string \<Rightarrow> string" where
  "replace_all old new s =
     (if old = [] \<or> s = [] then s
      else if startswith s old then new @ replace_all old new (drop (length old) s)
      else hd s # replace_all old new (tl s))"
  by pat_completeness auto
termination
  by (relation "measure (\<lambda>(old, new, s). length s)") auto

text \<open>Python's truth value of an optional string: None and the empty string are false.\<close>

definition truthy :: "string option \<Rightarrow> bool" where
  "truthy s = (case s of None \<Rightarrow> False | Some v \<Rightarrow> v \<noteq> [])"

text \<open>\<^verbatim>\<open>int(h, 16)\<close> on a string of hexadecimal digits, and \<^verbatim>\<open>h.upper()\<close>.\<close>

definition hex_value :: "char \<Rightarrow> nat" where
  "hex_value c = length (takeWhile (\<lambda>d. d \<noteq> c) ''0123456789abcdef'')"

definition int_of_hex :: "string \<Rightarrow> nat" where
  "int_of_hex h = foldl (\<lambda>a c. 16 * a + hex_value c) 0 h"

definition upper_hex :: "string \<Rightarrow> string" where
  "upper_hex h =
     map (\<lambda>c. case map_of (zip ''abcdef'' ''ABCDEF'') c of Some u \<Rightarrow> u | None \<Rightarrow> c) h"

subsection \<open>Libraries and state\<close>

text \<open>
  hashlib, Faker, json and fhir.resources are outside the repository; what the service
  uses of them is a field of \<open>deid_service\<close>. \<open>sha256_hexdigest\<close> is
  \<^verbatim>\<open>hashlib.sha256(s.encode()).hexdigest()\<close>, 64 lower-case hexadecimal digits. A Faker
  method takes the seed given to \<^verbatim>\<open>seed_instance\<close>. \<open>accepts cls r\<close> says that the
  constructor of the resource class \<open>cls\<close> takes the dict \<open>r\<close> without raising;
  \<open>loads_bundle\<close> is \<^verbatim>\<open>Bundle(**json.loads(s))\<close>, \<open>None\<close> where either raises, and
  \<open>dumps_bundle\<close> is \<^verbatim>\<open>json.dumps(bundle.dict(), default=str)\<close>. \<open>bundle_of\<close> is
  \<^verbatim>\<open>get_bundle_from_database\<close>, \<open>None\<close> for a missing row or a failed query, and
  \<open>now_ms\<close> the clock.
\<close>

record fhir_identifier =
  id_value :: "string option"
  id_rest :: string

record human_name =
  name_family :: "string option"
  name_given :: "string list option"
  name_rest :: string

record contact_point =
  cp_system :: "string option"
  cp_value :: "string option"

record fhir_reference =
  ref_reference :: "string option"
  ref_rest :: string

text \<open>
  A resource as the dict of an entry: the keys the service reads, each absent (\<open>None\<close>)
  or present, and the rest of its content.
\<close>

record resource =
  resourceType :: "string option"
  res_id :: "string option"
  res_identifiers :: "fhir_identifier list option"
  res_names :: "human_name list option"
  res_telecom :: "contact_point list option"
  res_address :: "string option"
  res_subject :: "fhir_reference option"
  res_performer :: "fhir_reference list option"
  res_requester :: "fhir_reference option"
  res_rest :: string

record bundle_entry =
  entry_resource :: "resource option"
  entry_rest :: string

record fhir_bundle =
  bundle_entries :: "bundle_entry list option"
  bundle_rest :: string

record deid_service =
  salt :: string
  sha256_hexdigest :: "string \<Rightarrow> string"
  faker_random_number :: "nat \<Rightarrow> nat \<Rightarrow> nat"
  faker_name :: "nat \<Rightarrow> string"
  faker_phone_number :: "nat \<Rightarrow> string"
  faker_email :: "nat \<Rightarrow> string"
  accepts :: "string \<Rightarrow> resource \<Rightarrow> bool"
  loads_bundle :: "string \<Rightarrow> fhir_bundle option"
  dumps_bundle :: "fhir_bundle \<Rightarrow> string"
  bundle_of :: "string \<Rightarrow> string option"
  now_ms :: nat

text \<open>
  What a database round of one \<^verbatim>\<open>get_or_create_pseudonym\<close> call meets: no failure, an
  exception before the SELECT returns, or an exception at the INSERT or its commit, which
  leaves the table as it was.
\<close>

datatype db_outcome = DbOk | SelectFails | InsertFails

text \<open>
  The mutable state: the in-process cache, keyed by the cache-key string; the table
  \<^verbatim>\<open>pseudonym_mapping\<close>, keyed by original identifier and identifier type; and the
  outcomes the coming database rounds will meet (none left: no failure).
\<close>

record deid_state =
  pseudonym_cache :: "string \<rightharpoonup> string"
  pseudonym_mapping :: "string \<times> string \<rightharpoonup> string"
  db_outcomes :: "db_outcome list"

subsection \<open>Pseudonyms\<close>

definition generate_pseudonym :: "deid_service \<Rightarrow> string \<Rightarrow> string \<Rightarrow> string" where
  "generate_pseudonym svc original_id identifier_type =
     (let hash_input = original_id @ '':'' @ identifier_type @ '':'' @ salt svc;
          hash_digest = sha256_hexdigest svc hash_input;
          seed = int_of_hex (take 8 hash_digest)
      in if identifier_type = ''patient_id''
         then ''PATIENT_'' @ str_of_nat (faker_random_number svc seed 6)
         else if identifier_type = ''practitioner_id''
         then ''PRACT_'' @ str_of_nat (faker_random_number svc seed 5)
         else if identifier_type = ''organization_id''
         then ''ORG_'' @ str_of_nat (faker_random_number svc seed 4)
         else if identifier_type = ''name'' then faker_name svc seed
         else if identifier_type = ''phone'' then faker_phone_number svc seed
         else if identifier_type = ''email'' then faker_email svc seed
         else ''PSEUDO_'' @ upper_hex (take 12 hash_digest))"

definition next_outcome :: "deid_state \<Rightarrow> db_outcome \<times> deid_state" where
  "next_outcome st =
     (case db_outcomes st of
        [] \<Rightarrow> (DbOk, st)
      | out # rest \<Rightarrow> (out, st\<lparr>db_outcomes := rest\<rparr>))"

text \<open>
  \<^verbatim>\<open>get_or_create_pseudonym\<close>: the cache, then the table, then generation with an INSERT;
  any exception of the database round falls back to generation alone.
\<close>

definition get_or_create_pseudonym ::
  "deid_service \<Rightarrow> string \<Rightarrow> string \<Rightarrow> deid_state \<Rightarrow> string \<times> deid_state" where
  "get_or_create_pseudonym svc original_id identifier_type st =
     (let cache_key = identifier_type @ '':'' @ original_id in
      case pseudonym_cache st cache_key of
        Some pseudonym \<Rightarrow> (pseudonym, st)
      | None \<Rightarrow>
          (case next_outcome st of (outcome, st1) \<Rightarrow>
             if outcome = SelectFails
             then (generate_pseudonym svc original_id identifier_type, st1)
             else
               (case pseudonym_mapping st1 (original_id, identifier_type) of
                  Some pseudonym \<Rightarrow>
                    (pseudonym,
                     st1\<lparr>pseudonym_cache := (pseudonym_cache st1)(cache_key \<mapsto> pseudonym)\<rparr>)
                | None \<Rightarrow>
                    (let pseudonym = generate_pseudonym svc original_id identifier_type in
                     if outcome = InsertFails then (pseudonym, st1)
                     else
                       (pseudonym,
                        st1\<lparr>pseudonym_mapping :=
                              (pseudonym_mapping st1)((original_id, identifier_type) \<mapsto> pseudonym),
                            pseudonym_cache :=
                              (pseudonym_cache st1)(cache_key \<mapsto> pseudonym)\<rparr>)))))"

subsection \<open>Anonymizers\<close>

text \<open>A loop whose body reads and updates the state, over the items of a list in order.\<close>

fun map_state :: "('a \<Rightarrow> 's \<Rightarrow> 'b \<times> 's) \<Rightarrow> 'a list \<Rightarrow> 's \<Rightarrow> 'b list \<times> 's" where
  "map_state f [] st = ([], st)"
| "map_state f (x # xs) st =
     (case f x st of (y, st1) \<Rightarrow>
        (case map_state f xs st1 of (ys, st2) \<Rightarrow> (y # ys, st2)))"

text \<open>A loop over an optional list: \<^verbatim>\<open>if xs: for x in xs: ...\<close>\<close>

definition map_state_opt ::
  "('a \<Rightarrow> 's \<Rightarrow> 'a \<times> 's) \<Rightarrow> 'a list option \<Rightarrow> 's \<Rightarrow> 'a list option \<times> 's" where
  "map_state_opt f xs st =
     (case xs of
        None \<Rightarrow> (None, st)
      | Some l \<Rightarrow> (case map_state f l st of (l', st1) \<Rightarrow> (Some l', st1)))"

definition anonymize_optional ::
  "deid_service \<Rightarrow> string \<Rightarrow> string option \<Rightarrow> deid_state \<Rightarrow> string option \<times> deid_state" where
  "anonymize_optional svc identifier_type v st =
     (if truthy v
      then (case get_or_create_pseudonym svc (the v) identifier_type st of
              (p, st1) \<Rightarrow> (Some p, st1))
      else (v, st))"

definition anonymize_identifier ::
  "deid_service \<Rightarrow> fhir_identifier \<Rightarrow> deid_state \<Rightarrow> fhir_identifier \<times> deid_state" where
  "anonymize_identifier svc idf st =
     (case anonymize_optional svc ''patient_identifier'' (id_value idf) st of
        (v, st1) \<Rightarrow> (idf\<lparr>id_value := v\<rparr>, st1))"

definition anonymize_name ::
  "deid_service \<Rightarrow> human_name \<Rightarrow> deid_state \<Rightarrow> human_name \<times> deid_state" where
  "anonymize_name svc nm st =
     (case anonymize_optional svc ''name'' (name_family nm) st of
        (fam, st1) \<Rightarrow>
          (case name_given nm of
             None \<Rightarrow> (nm\<lparr>name_family := fam\<rparr>, st1)
           | Some gs \<Rightarrow>
               if gs = [] then (nm\<lparr>name_family := fam\<rparr>, st1)
               else
                 (case map_state (\<lambda>g. get_or_create_pseudonym svc g ''name'') gs st1 of
                    (gs', st2) \<Rightarrow> (nm\<lparr>name_family := fam, name_given := Some gs'\<rparr>, st2))))"

definition anonymize_telecom ::
  "deid_service \<Rightarrow> contact_point \<Rightarrow> deid_state \<Rightarrow> contact_point \<times> deid_state" where
  "anonymize_telecom svc tc st =
     (if truthy (cp_value tc)
      then
        (if cp_system tc = Some ''phone''
         then (case get_or_create_pseudonym svc (the (cp_value tc)) ''phone'' st of
                 (p, st1) \<Rightarrow> (tc\<lparr>cp_value := Some p\<rparr>, st1))
         else if cp_system tc = Some ''email''
         then (case get_or_create_pseudonym svc (the (cp_value tc)) ''email'' st of
                 (p, st1) \<Rightarrow> (tc\<lparr>cp_value := Some p\<rparr>, st1))
         else (tc, st))
      else (tc, st))"

text \<open>
  \<^verbatim>\<open>anonymize_patient_resource\<close>. The constructor \<^verbatim>\<open>Patient(**patient_data)\<close> is the
  first statement of the \<^verbatim>\<open>try\<close>; when it raises, the handler returns the data as they
  came and no pseudonym has been resolved. What the library may raise after it, on an
  assignment or in \<^verbatim>\<open>dict()\<close>, is not modelled. An empty list is false in
  \<^verbatim>\<open>if patient.identifier:\<close> and its loop would do nothing, so both are one case.
\<close>

definition anonymize_patient_resource ::
  "deid_service \<Rightarrow> resource \<Rightarrow> deid_state \<Rightarrow> resource \<times> deid_state" where
  "anonymize_patient_resource svc patient_data st =
     (if \<not> accepts svc ''Patient'' patient_data then (patient_data, st)
      else
        (case anonymize_optional svc ''patient_id'' (res_id patient_data) st of
           (pid, st1) \<Rightarrow>
        (case map_state_opt (anonymize_identifier svc) (res_identifiers patient_data) st1 of
           (ids, st2) \<Rightarrow>
        (case map_state_opt (anonymize_name svc) (res_names patient_data) st2 of
           (nms, st3) \<Rightarrow>
        (case map_state_opt (anonymize_telecom svc) (res_telecom patient_data) st3 of
           (tcs, st4) \<Rightarrow>
             (patient_data\<lparr>res_id := pid, res_identifiers := ids, res_names := nms, res_telecom := tcs,
                           res_address := None\<rparr>, st4))))))"

text \<open>
  The rewriting of a reference with a given prefix, shared by the subject, performer and
  requester code: \<^verbatim>\<open>replace\<close> removes every occurrence of the prefix.
\<close>

definition anonymize_reference ::
  "deid_service \<Rightarrow> string \<Rightarrow> string \<Rightarrow> fhir_reference \<Rightarrow> deid_state \<Rightarrow> fhir_reference \<times> deid_state" where
  "anonymize_reference svc pre identifier_type r st =
     (if truthy (ref_reference r) \<and> startswith (the (ref_reference r)) pre
      then
        (case get_or_create_pseudonym svc (replace_all pre [] (the (ref_reference r))) identifier_type st of
           (pseudo_id, st1) \<Rightarrow> (r\<lparr>ref_reference := Some (pre @ pseudo_id)\<rparr>, st1))
      else (r, st))"

definition anonymize_reference_opt ::
  "deid_service \<Rightarrow> string \<Rightarrow> string \<Rightarrow> fhir_reference option \<Rightarrow> deid_state
     \<Rightarrow> fhir_reference option \<times> deid_state" where
  "anonymize_reference_opt svc pre identifier_type r st =
     (case r of
        None \<Rightarrow> (None, st)
      | Some r0 \<Rightarrow>
          (case anonymize_reference svc pre identifier_type r0 st of
             (r1, st1) \<Rightarrow> (Some r1, st1)))"

definition anonymize_observation_resource ::
  "deid_service \<Rightarrow> resource \<Rightarrow> deid_state \<Rightarrow> resource \<times> deid_state" where
  "anonymize_observation_resource svc observation_data st =
     (if \<not> accepts svc ''Observation'' observation_data then (observation_data, st)
      else
        (case anonymize_reference_opt svc ''Patient/'' ''patient_id''
                (res_subject observation_data) st of
           (subj, st1) \<Rightarrow>
        (case map_state_opt (anonymize_reference svc ''Practitioner/'' ''practitioner_id'')
                (res_performer observation_data) st1 of
           (perf, st2) \<Rightarrow> (observation_data\<lparr>res_subject := subj, res_performer := perf\<rparr>, st2))))"

definition anonymize_condition_resource ::
  "deid_service \<Rightarrow> resource \<Rightarrow> deid_state \<Rightarrow> resource \<times> deid_state" where
  "anonymize_condition_resource svc condition_data st =
     (if \<not> accepts svc ''Condition'' condition_data then (condition_data, st)
      else
        (case anonymize_reference_opt svc ''Patient/'' ''patient_id''
                (res_subject condition_data) st of
           (subj, st1) \<Rightarrow> (condition_data\<lparr>res_subject := subj\<rparr>, st1)))"

definition anonymize_medication_request_resource ::
  "deid_service \<Rightarrow> resource \<Rightarrow> deid_state \<Rightarrow> resource \<times> deid_state" where
  "anonymize_medication_request_resource svc medication_data st =
     (if \<not> accepts svc ''MedicationRequest'' medication_data then (medication_data, st)
      else
        (case anonymize_reference_opt svc ''Patient/'' ''patient_id''
                (res_subject medication_data) st of
           (subj, st1) \<Rightarrow>
        (case anonymize_reference_opt svc ''Practitioner/'' ''practitioner_id''
                (res_requester medication_data) st1 of
           (req, st2) \<Rightarrow> (medication_data\<lparr>res_subject := subj, res_requester := req\<rparr>, st2))))"

text \<open>The dispatch on \<^verbatim>\<open>entry.resource.get('resourceType')\<close>.\<close>

definition anonymize_resource ::
  "deid_service \<Rightarrow> resource \<Rightarrow> deid_state \<Rightarrow> resource \<times> deid_state" where
  "anonymize_resource svc r st =
     (if resourceType r = Some ''Patient'' then anonymize_patient_resource svc r st
      else if resourceType r = Some ''Observation'' then anonymize_observation_resource svc r st
      else if resourceType r = Some ''Condition'' then anonymize_condition_resource svc r st
      else if resourceType r = Some ''MedicationRequest''
      then anonymize_medication_request_resource svc r st
      else (r, st))"

text \<open>The dict without any key, which is false in \<^verbatim>\<open>if entry.resource:\<close>.\<close>

definition empty_resource :: resource where
  "empty_resource = \<lparr>resourceType = None, res_id = None, res_identifiers = None, res_names = None,
     res_telecom = None, res_address = None, res_subject = None, res_performer = None, res_requester = None,
     res_rest = []\<rparr>"

definition anonymize_entry ::
  "deid_service \<Rightarrow> bundle_entry \<Rightarrow> deid_state \<Rightarrow> bundle_entry \<times> deid_state" where
  "anonymize_entry svc e st =
     (case entry_resource e of
        None \<Rightarrow> (e, st)
      | Some r \<Rightarrow>
          if r = empty_resource then (e, st)
          else (case anonymize_resource svc r st of
                  (r', st1) \<Rightarrow> (e\<lparr>entry_resource := Some r'\<rparr>, st1)))"

definition anonymize_entries ::
  "deid_service \<Rightarrow> bundle_entry list \<Rightarrow> deid_state \<Rightarrow> bundle_entry list \<times> deid_state" where
  "anonymize_entries svc es st = map_state (anonymize_entry svc) es st"

text \<open>
  \<^verbatim>\<open>anonymize_bundle\<close>: a bundle that does not load is returned as the string it came
  as.
\<close>

definition anonymize_bundle :: "deid_service \<Rightarrow> string \<Rightarrow> deid_state \<Rightarrow> string \<times> deid_state" where
  "anonymize_bundle svc bundle_json st =
     (case loads_bundle svc bundle_json of
        None \<Rightarrow> (bundle_json, st)
      | Some b \<Rightarrow>
          (case map_state_opt (anonymize_entry svc) (bundle_entries b) st of
             (es, st1) \<Rightarrow> (dumps_bundle svc (b\<lparr>bundle_entries := es\<rparr>), st1)))"

subsection \<open>Messages\<close>

record kafka_message =
  bundleId :: "string option"
  patientId :: "string option"

record output_message =
  originalBundleId :: string
  patientPseudoId :: string
  anonymizedBundle :: string
  timestamp :: nat
  source :: string
  eventType :: string

text \<open>How an f-string and the hash input render an optional string.\<close>

definition py_str :: "string option \<Rightarrow> string" where
  "py_str v = (case v of None \<Rightarrow> ''None'' | Some s \<Rightarrow> s)"

text \<open>
  \<^verbatim>\<open>process_message\<close>, up to the message it hands to the producer; \<open>None\<close> where it
  returns early. A missing patient id reaches \<^verbatim>\<open>get_or_create_pseudonym\<close> as None and is
  rendered \<open>None\<close> in the cache key and the hash input; the table row it would be stored
  under is the one of the string here.
\<close>

definition process_message ::
  "deid_service \<Rightarrow> kafka_message \<Rightarrow> deid_state \<Rightarrow> output_message option \<times> deid_state" where
  "process_message svc msg st =
     (if \<not> truthy (bundleId msg) then (None, st)
      else
        (let bundle_id = the (bundleId msg);
             bundle_json = bundle_of svc bundle_id
         in if \<not> truthy bundle_json then (None, st)
            else
              (case anonymize_bundle svc (the bundle_json) st of
                 (anonymized_bundle, st1) \<Rightarrow>
              (case get_or_create_pseudonym svc (py_str (patientId msg)) ''patient_id'' st1 of
                 (pseudo_patient_id, st2) \<Rightarrow>
                   (Some \<lparr>originalBundleId = bundle_id, patientPseudoId = pseudo_patient_id,
                          anonymizedBundle = anonymized_bundle, timestamp = now_ms svc,
                          source = ''deid-service'', eventType = ''fhir_data_anonymized''\<rparr>,
                    st2)))))"

subsection \<open>Predicates and sample data\<close>

text \<open>A resource of one of the four types the dispatch handles, and an entry of none.\<close>

definition handled :: "resource \<Rightarrow> bool" where
  "handled r = (resourceType r = Some ''Patient'' \<or> resourceType r = Some ''Observation''
     \<or> resourceType r = Some ''Condition'' \<or> resourceType r = Some ''MedicationRequest'')"

definition entry_unhandled :: "bundle_entry \<Rightarrow> bool" where
  "entry_unhandled e = (case entry_resource e of None \<Rightarrow> True | Some r \<Rightarrow> \<not> handled r)"

text \<open>
  An identifier type without a colon, as all the types the service passes are. The cache
  key joins type and identifier with a colon, so two pairs share a key only if a type
  holds one.
\<close>

definition colon_free :: "string \<Rightarrow> bool" where
  "colon_free t = (CHR '':'' \<notin> set t)"

text \<open>
  A cache and a table that hold nothing but pseudonyms this generator makes, under the
  service's salt, for colon-free types. The empty store has the property and every call of
  \<^verbatim>\<open>get_or_create_pseudonym\<close> with a colon-free type keeps it.
\<close>

definition consistent :: "deid_service \<Rightarrow> deid_state \<Rightarrow> bool" where
  "consistent svc st =
     ((\<forall>k p. pseudonym_cache st k = Some p \<longrightarrow>
         (\<exists>x t. colon_free t \<and> k = t @ '':'' @ x \<and> p = generate_pseudonym svc x t))
      \<and> (\<forall>x t p. pseudonym_mapping st (x, t) = Some p \<longrightarrow> p = generate_pseudonym svc x t))"

definition initial_state :: "db_outcome list \<Rightarrow> deid_state" where
  "initial_state outs = \<lparr>pseudonym_cache = Map.empty, pseudonym_mapping = Map.empty,
     db_outcomes = outs\<rparr>"

text \<open>
  The digests \<^verbatim>\<open>hashlib.sha256\<close> gives for three inputs under the default salt, for
  examples; every other input is given the all-zero digest here.
\<close>

definition recorded_sha256 :: "string \<Rightarrow> string" where
  "recorded_sha256 s =
     (if s = ''c:a:b:healthflow-deid-salt-2024''
      then ''485abc1cb09f3b3eebb2005204c0709ef73c07d2bcc016b9a1813bdcfa1868e0''
      else if s = ''b:c:a:healthflow-deid-salt-2024''
      then ''ac1016b707de8654ffe035cf28bf4cfd4f75e29b8d8dfd0965ddc0fe1a38b402''
      else if s = ''p1:patient_id:healthflow-deid-salt-2024''
      then ''363ffe73fa7fd565bff9507dc65dfe19a4e16f0328265879aeb93905e0541614''
      else replicate 64 CHR ''0'')"

text \<open>
  A bundle of three entries: the patient p1, an observation about p1 that the Observation
  constructor rejects, and a diagnostic report.
\<close>

definition sample_patient :: resource where
  "sample_patient = empty_resource\<lparr>resourceType := Some ''Patient'', res_id := Some ''p1''\<rparr>"

definition sample_observation :: resource where
  "sample_observation = empty_resource\<lparr>resourceType := Some ''Observation'',
     res_subject := Some \<lparr>ref_reference = Some ''Patient/p1'', ref_rest = []\<rparr>,
     res_rest := ''invalid''\<rparr>"

definition sample_report :: resource where
  "sample_report = empty_resource\<lparr>resourceType := Some ''DiagnosticReport'',
     res_subject := Some \<lparr>ref_reference = Some ''Patient/p1'', ref_rest = []\<rparr>\<rparr>"

definition sample_entries :: "bundle_entry list" where
  "sample_entries =
     [\<lparr>entry_resource = Some sample_patient, entry_rest = []\<rparr>,
      \<lparr>entry_resource = Some sample_observation, entry_rest = []\<rparr>,
      \<lparr>entry_resource = Some sample_report, entry_rest = []\<rparr>]"

text \<open>
  A service for examples, with the default salt. Its Faker and its serializer are
  placeholders; its validator rejects a resource whose remaining content is
  \<open>invalid\<close>; the only string it loads as a bundle is \<open>sample\<close>, and the bundle
  stored under b1 is not a bundle document.
\<close>

definition sample_deid :: deid_service where
  "sample_deid = \<lparr>salt = ''healthflow-deid-salt-2024'',
     sha256_hexdigest = recorded_sha256,
     faker_random_number = (\<lambda>seed digits. seed mod 10 ^ digits),
     faker_name = (\<lambda>seed. ''Name'' @ str_of_nat seed),
     faker_phone_number = (\<lambda>seed. ''555'' @ str_of_nat seed),
     faker_email = (\<lambda>seed. ''user'' @ str_of_nat seed),
     accepts = (\<lambda>cls r. res_rest r \<noteq> ''invalid''),
     loads_bundle = (\<lambda>s. if s = ''sample''
        then Some \<lparr>bundle_entries = Some sample_entries, bundle_rest = []\<rparr> else None),
     dumps_bundle = (\<lambda>b. ''dumped''),
     bundle_of = (\<lambda>bid. if bid = ''b1'' then Some ''not a bundle'' else None),
     now_ms = 0\<rparr>"

text \<open>The sample observation in a form the Observation constructor takes.\<close>

definition sample_observation_ok :: resource where
  "sample_observation_ok = sample_observation\<lparr>res_rest := []\<rparr>"

section \<open>Properties\<close>

subsection \<open>Risk levels\<close>

lemma double_literals:
  "is_double_of 0.3 5404319552844595 54 \<and> is_double_of 0.6 5404319552844595 53
   \<and> is_double_of 0.8 7205759403792794 53 \<and> is_double_of 0.29 5224175567749775 54
   \<and> is_double_of 0.59 5314247560297185 53 \<and> is_double_of 0.79 7115687411245384 53
   \<and> is_double_of 0.001 4611686018427388 62"
  by (simp add: is_double_of_def)

text \<open>
  Claim C4. Both consumers bucket a risk score the same way, on the doubles the code
  compares with: LOW below the double 0.3, MODERATE from the double 0.3 up to but
  excluding the double 0.6, HIGH from the double 0.6 up to but excluding the double 0.8,
  CRITICAL in every other case (NaN included, since all its comparisons fail). The two
  functions agree on every score. The doubles that the literals 0.29, 0.3, 0.59, 0.6,
  0.79 and 0.8 denote land in LOW, MODERATE, MODERATE, HIGH, HIGH and CRITICAL.
\<close>

theorem risk_bucketing:
  "categorize_risk x = categorize_risk_level x
   \<and> (categorize_risk x = ''LOW'') = float_lt x (Fin double_0_3)
   \<and> (categorize_risk x = ''MODERATE'')
       = (float_le (Fin double_0_3) x \<and> float_lt x (Fin double_0_6))
   \<and> (categorize_risk x = ''HIGH'')
       = (float_le (Fin double_0_6) x \<and> float_lt x (Fin double_0_8))
   \<and> (categorize_risk x = ''CRITICAL'')
       = (\<not> float_lt x (Fin double_0_3) \<and> \<not> float_lt x (Fin double_0_6)
          \<and> \<not> float_lt x (Fin double_0_8))
   \<and> is_double_of 0.29 5224175567749775 54
   \<and> categorize_risk (Fin (5224175567749775 / 2 ^ 54)) = ''LOW''
   \<and> is_double_of 0.3 5404319552844595 54
   \<and> categorize_risk (Fin (5404319552844595 / 2 ^ 54)) = ''MODERATE''
   \<and> is_double_of 0.59 5314247560297185 53
   \<and> categorize_risk (Fin (5314247560297185 / 2 ^ 53)) = ''MODERATE''
   \<and> is_double_of 0.6 5404319552844595 53
   \<and> categorize_risk (Fin (5404319552844595 / 2 ^ 53)) = ''HIGH''
   \<and> is_double_of 0.79 7115687411245384 53
   \<and> categorize_risk (Fin (7115687411245384 / 2 ^ 53)) = ''HIGH''
   \<and> is_double_of 0.8 7205759403792794 53
   \<and> categorize_risk (Fin (7205759403792794 / 2 ^ 53)) = ''CRITICAL''"
proof -
  have thresholds: "double_0_3 < double_0_6" "double_0_6 < double_0_8"
    by (simp_all add: double_0_3_def double_0_6_def double_0_8_def)
  have agree: "categorize_risk x = categorize_risk_level x"
    by (simp add: categorize_risk_def categorize_risk_level_def)
  have buckets:
    "(categorize_risk x = ''LOW'') = float_lt x (Fin double_0_3)"
    "(categorize_risk x = ''MODERATE'')
       = (float_le (Fin double_0_3) x \<and> float_lt x (Fin double_0_6))"
    "(categorize_risk x = ''HIGH'')
       = (float_le (Fin double_0_6) x \<and> float_lt x (Fin double_0_8))"
    "(categorize_risk x = ''CRITICAL'')
       = (\<not> float_lt x (Fin double_0_3) \<and> \<not> float_lt x (Fin double_0_6)
          \<and> \<not> float_lt x (Fin double_0_8))"
    using thresholds by (cases x; auto simp: categorize_risk_def)+
  have samples:
    "categorize_risk (Fin (5224175567749775 / 2 ^ 54)) = ''LOW''"
    "categorize_risk (Fin (5404319552844595 / 2 ^ 54)) = ''MODERATE''"
    "categorize_risk (Fin (5314247560297185 / 2 ^ 53)) = ''MODERATE''"
    "categorize_risk (Fin (5404319552844595 / 2 ^ 53)) = ''HIGH''"
    "categorize_risk (Fin (7115687411245384 / 2 ^ 53)) = ''HIGH''"
    "categorize_risk (Fin (7205759403792794 / 2 ^ 53)) = ''CRITICAL''"
    by (simp_all add: categorize_risk_def double_0_3_def double_0_6_def double_0_8_def)
  show ?thesis using agree buckets samples double_literals by simp
qed

subsection \<open>Feature vectorization\<close>

lemma round_half_even_53_samples:
  "round_half_even_53 70 = 70 \<and> round_half_even_53 (2 ^ 53 + 1) = 2 ^ 53
   \<and> round_half_even_53 (2 ^ 53 + 3) = 2 ^ 53 + 4"
  by (simp add: round_half_even_53_def Let_def)

lemma len_dummy: "length dummy_feature_names = 50"
  by (simp add: dummy_feature_names_def)

lemma pad_features_ge: "n \<le> length v \<Longrightarrow> pad_features n v = v"
  by simp

lemma length_collect_features:
  "collect_features svc fs names acc = Inr fv \<Longrightarrow> length fv = length acc + length names"
  by (induction names arbitrary: acc) (auto split: option.splits sum.splits)

lemma feature_value_in_range:
  assumes "\<forall>k. v = PInt k \<longrightarrow> \<bar>k\<bar> < 2 ^ 1024 - 2 ^ 970"
  shows "feature_value svc v
         = Inr (case coerced_number svc v of Some x \<Rightarrow> x | None \<Rightarrow> Fin 0)"
  using assms
  by (cases v)
     (simp_all add: feature_value_def float_of_int_def float_of_bool_def split: option.splits)

lemma collect_features_ok:
  "\<forall>n \<in> set names. \<forall>k. map_of fs n = Some (PInt k) \<longrightarrow> \<bar>k\<bar> < 2 ^ 1024 - 2 ^ 970 \<Longrightarrow>
   collect_features svc fs names acc = Inr (acc @ map (expected_entry svc fs) names)"
proof (induction names arbitrary: acc)
  case Nil
  then show ?case by simp
next
  case (Cons n names)
  show ?case
  proof (cases "map_of fs n")
    case None
    with Cons show ?thesis by (simp add: expected_entry_def)
  next
    case (Some v)
    with Cons.prems have "\<forall>k. v = PInt k \<longrightarrow> \<bar>k\<bar> < 2 ^ 1024 - 2 ^ 970" by simp
    then have "feature_value svc v
         = Inr (case coerced_number svc v of Some x \<Rightarrow> x | None \<Rightarrow> Fin 0)"
      by (rule feature_value_in_range)
    with Some Cons show ?thesis by (simp add: expected_entry_def)
  qed
qed

lemma length_prepare:
  assumes "\<forall>t v out. scaler svc = Some t \<and> t v = Some out \<longrightarrow> length out = length v"
  shows "length (prepare_feature_vector svc fs) = length (feature_names svc)"
proof (cases "collect_features svc fs (feature_names svc) []")
  case (Inl e)
  then show ?thesis by (simp add: prepare_feature_vector_def zero_vector_def)
next
  case (Inr fv)
  then have len: "length fv = length (feature_names svc)"
    using length_collect_features by fastforce
  then have pad: "pad_features (length (feature_names svc)) fv = fv" by simp
  show ?thesis
  proof (cases "scaler svc")
    case None
    with Inr pad len show ?thesis by (simp add: prepare_feature_vector_def)
  next
    case (Some t)
    show ?thesis
    proof (cases "t fv")
      case None
      with Inr pad Some show ?thesis by (simp add: prepare_feature_vector_def zero_vector_def)
    next
      case (Some out)
      with assms \<open>scaler svc = Some t\<close> have "length out = length fv" by blast
      with Inr pad Some \<open>scaler svc = Some t\<close> len show ?thesis
        by (simp add: prepare_feature_vector_def)
    qed
  qed
qed

text \<open>
  Where no int under an expected name overflows, the code does what the specification
  says: the returned vector is the scaling of the row of expected entries.
\<close>

lemma prepare_feature_vector_in_range:
  assumes "\<forall>n \<in> set (feature_names svc). \<forall>k. map_of fs n = Some (PInt k)
             \<longrightarrow> \<bar>k\<bar> < 2 ^ 1024 - 2 ^ 970"
  shows "prepare_feature_vector svc fs
         = scale_row svc (map (expected_entry svc fs) (feature_names svc))"
  using collect_features_ok[OF assms, of svc "[]"]
  by (simp add: prepare_feature_vector_def scale_row_def Let_def)

lemma prepare_feature_vector_example:
  assumes "scaler svc = None"
  shows "prepare_feature_vector svc [(''age'', PInt 70), (''total_conditions'', PInt 5)]
         = map (\<lambda>n. if n = ''age'' then Fin 70 else if n = ''total_conditions'' then Fin 5
                     else Fin 0) (feature_names svc)"
proof -
  let ?fs = "[(''age'', PInt 70), (''total_conditions'', PInt 5)]"
  have "\<forall>n \<in> set (feature_names svc). \<forall>k. map_of ?fs n = Some (PInt k)
             \<longrightarrow> \<bar>k\<bar> < 2 ^ 1024 - 2 ^ 970"
    by (auto split: if_splits)
  then have "prepare_feature_vector svc ?fs
      = scale_row svc (map (expected_entry svc ?fs) (feature_names svc))"
    by (rule prepare_feature_vector_in_range)
  moreover have "expected_entry svc ?fs
      = (\<lambda>n. if n = ''age'' then Fin 70 else if n = ''total_conditions'' then Fin 5 else Fin 0)"
    by (rule ext) (simp add: expected_entry_def round_half_even_53_def)
  ultimately show ?thesis using assms by (simp add: scale_row_def)
qed

text \<open>
  Claim C3 holds of the specification and fails in the code at an int too large for
  \<^verbatim>\<open>float\<close>. Take any service with the 50 feature names of the dummy model, whatever
  its scaler, and the mapping \<open>{age: 2^1024, total_conditions: 5}\<close>. The bare
  \<^verbatim>\<open>float(value)\<close> of the numeric branch raises OverflowError at age, the outer handler
  returns the zero vector of length 50, and position 3, named total_conditions, holds 0.0,
  where the specification expects 0.0 for age (coercion fails) and 5.0 for
  total_conditions. The string branch next to it guards the same call with its own
  \<^verbatim>\<open>try\<close> and falls back to 0.0 for that position only.
\<close>

theorem feature_vectorization_overflow:
  "prepare_feature_vector (svc\<lparr>feature_names := dummy_feature_names\<rparr>)
     [(''age'', PInt (2 ^ 1024)), (''total_conditions'', PInt 5)] = replicate 50 (Fin 0)
   \<and> dummy_feature_names ! 3 = ''total_conditions''
   \<and> expected_entry (svc\<lparr>feature_names := dummy_feature_names\<rparr>)
       [(''age'', PInt (2 ^ 1024)), (''total_conditions'', PInt 5)] ''age'' = Fin 0
   \<and> expected_entry (svc\<lparr>feature_names := dummy_feature_names\<rparr>)
       [(''age'', PInt (2 ^ 1024)), (''total_conditions'', PInt 5)] ''total_conditions'' = Fin 5"
proof -
  let ?fs = "[(''age'', PInt (2 ^ 1024)), (''total_conditions'', PInt 5)]"
  let ?svc = "svc\<lparr>feature_names := dummy_feature_names\<rparr>"
  have "feature_value ?svc (PInt (2 ^ 1024)) = Inl OverflowError"
    by (simp add: feature_value_def float_of_int_def)
  then have "collect_features ?svc ?fs dummy_feature_names [] = Inl OverflowError"
    by (simp add: dummy_feature_names_def)
  then have v: "prepare_feature_vector ?svc ?fs = replicate 50 (Fin 0)"
    by (simp add: prepare_feature_vector_def zero_vector_def len_dummy)
  have n: "dummy_feature_names ! 3 = ''total_conditions''"
    by (simp add: dummy_feature_names_def)
  have e: "expected_entry ?svc ?fs ''age'' = Fin 0"
    "expected_entry ?svc ?fs ''total_conditions'' = Fin 5"
    by (simp_all add: expected_entry_def round_half_even_53_def)
  from v n e show ?thesis by simp
qed

subsection \<open>Attribution and fallback of the prediction\<close>


















lemma py_max_nonempty: "xs \<noteq> [] \<Longrightarrow> \<exists>m. py_max xs = Inr m"
  by (cases xs) auto

lemma predict_risk_body_success:
  assumes "predict_risk_body svc features = Inr (r, c, expl)"
  shows "\<exists>s shap. explainer svc = Some s \<and> s (prepare_feature_vector svc features) = Some shap
           \<and> expl = sorted_desc (fill_explanation (zip (feature_names svc) shap) [])"
proof (cases "model svc")
  case None
  with assms show ?thesis by (simp add: predict_risk_body_def)
next
  case (Some p)
  note m = this
  show ?thesis
  proof (cases "p (prepare_feature_vector svc features)")
    case None
    with assms m show ?thesis by (simp add: predict_risk_body_def)
  next
    case (Some row)
    note r = this
    show ?thesis
    proof (cases "length row < 2")
      case True
      with assms m r show ?thesis by (simp add: predict_risk_body_def)
    next
      case False
      then have "row \<noteq> []" by auto
      then obtain mx where mx: "py_max row = Inr mx" using py_max_nonempty by blast
      show ?thesis
      proof (cases "explainer svc")
        case None
        with assms m r False mx show ?thesis by (simp add: predict_risk_body_def)
      next
        case (Some s)
        note e = this
        show ?thesis
        proof (cases "s (prepare_feature_vector svc features)")
          case None
          with assms m r False mx e show ?thesis by (simp add: predict_risk_body_def)
        next
          case (Some shap)
          with assms m r False mx e show ?thesis by (simp add: predict_risk_body_def)
        qed
      qed
    qed
  qed
qed

lemma predict_risk_body_model:
  assumes "predict_risk_body svc features = Inr res"
  shows "\<exists>p row. model svc = Some p \<and> p (prepare_feature_vector svc features) = Some row
          \<and> \<not> length row < 2"
proof (cases "model svc")
  case None
  with assms show ?thesis by (simp add: predict_risk_body_def)
next
  case (Some p)
  note m = this
  show ?thesis
  proof (cases "p (prepare_feature_vector svc features)")
    case None
    with assms m show ?thesis by (simp add: predict_risk_body_def)
  next
    case (Some row)
    with assms m show ?thesis by (cases "length row < 2") (simp_all add: predict_risk_body_def)
  qed
qed

lemma predict_risk_body_raises:
  assumes "model svc = None \<or> explainer svc = None
     \<or> (\<exists>p. model svc = Some p \<and> p (prepare_feature_vector svc features) = None)
     \<or> (\<exists>p row. model svc = Some p \<and> p (prepare_feature_vector svc features) = Some row
           \<and> length row < 2)
     \<or> (\<exists>s. explainer svc = Some s \<and> s (prepare_feature_vector svc features) = None)"
  shows "\<exists>e. predict_risk_body svc features = Inl e"
proof (cases "predict_risk_body svc features")
  case (Inl e)
  then show ?thesis by blast
next
  case (Inr res)
  obtain r c expl where "res = (r, c, expl)" by (cases res)
  with Inr have ok: "predict_risk_body svc features = Inr (r, c, expl)" by simp
  from predict_risk_body_success[OF ok] obtain s shap where
    e: "explainer svc = Some s" "s (prepare_feature_vector svc features) = Some shap" by blast
  from predict_risk_body_model[OF Inr] obtain p row where
    m: "model svc = Some p" "p (prepare_feature_vector svc features) = Some row"
       "\<not> length row < 2" by blast
  from assms e m show ?thesis by auto
qed




text \<open>
  Claim C7. Whenever a step of prediction or explanation raises (the model or the
  explainer is unset, \<^verbatim>\<open>predict_proba\<close> or \<^verbatim>\<open>shap_values\<close> raises, or the row of
  probabilities has no second entry), \<^verbatim>\<open>predict_risk\<close> returns exactly the risk score
  0.5, the confidence 0.0 and the empty attribution; and \<^verbatim>\<open>create_explanation_text\<close> of
  an empty attribution is the fixed message.
\<close>

theorem neutral_fallback:
  assumes "model svc = None \<or> explainer svc = None
     \<or> (\<exists>p. model svc = Some p \<and> p (prepare_feature_vector svc features) = None)
     \<or> (\<exists>p row. model svc = Some p \<and> p (prepare_feature_vector svc features) = Some row
           \<and> length row < 2)
     \<or> (\<exists>s. explainer svc = Some s \<and> s (prepare_feature_vector svc features) = None)"
  shows "predict_risk svc features = (Fin (1 / 2), Fin 0, [])
     \<and> create_explanation_text svc (snd (snd (predict_risk svc features)))
         = ''No significant risk factors identified.''
     \<and> create_explanation_text svc [] = ''No significant risk factors identified.''"
proof -
  have "\<exists>e. predict_risk_body svc features = Inl e"
    using assms by (rule predict_risk_body_raises)
  then obtain e where "predict_risk_body svc features = Inl e" ..
  then have "predict_risk svc features = (Fin (1 / 2), Fin 0, [])"
    by (simp add: predict_risk_def)
  then show ?thesis by (simp add: create_explanation_text_def)
qed

theorem neutral_fallback_witness:
  "explainer failing_service = Some (\<lambda>v. None)
   \<and> predict_risk failing_service [(''age'', PInt 70)] = (Fin (1 / 2), Fin 0, [])
   \<and> create_explanation_text failing_service [] = ''No significant risk factors identified.''"
proof -
  have e: "explainer failing_service = Some (\<lambda>v. None)"
    by (simp add: failing_service_def)
  then have "\<exists>s. explainer failing_service = Some s
      \<and> s (prepare_feature_vector failing_service [(''age'', PInt 70)]) = None" by simp
  with neutral_fallback[of failing_service "[(''age'', PInt 70)]"] e show ?thesis by blast
qed

subsection \<open>Normalization of features\<close>













subsection \<open>Pseudonym resolution\<close>

lemma key_inj:
  "colon_free t \<Longrightarrow> colon_free t' \<Longrightarrow> t @ '':'' @ x = t' @ '':'' @ x' \<Longrightarrow> t = t' \<and> x = x'"
proof (induction t arbitrary: t')
  case Nil
  then show ?case by (cases t') (auto simp: colon_free_def)
next
  case (Cons c t)
  then show ?case by (cases t') (auto simp: colon_free_def)
qed

lemma next_outcome_fields:
  "pseudonym_cache (snd (next_outcome st)) = pseudonym_cache st"
  "pseudonym_mapping (snd (next_outcome st)) = pseudonym_mapping st"
  by (simp_all add: next_outcome_def split: list.splits)

lemma consistent_next_outcome: "consistent svc (snd (next_outcome st)) = consistent svc st"
  by (simp add: consistent_def next_outcome_fields)

lemma consistent_cache_hit:
  assumes "consistent svc st" "colon_free t" "pseudonym_cache st (t @ '':'' @ x) = Some p"
  shows "p = generate_pseudonym svc x t"
proof -
  from assms(1,3) obtain x' t' where
    h: "colon_free t'" "t @ '':'' @ x = t' @ '':'' @ x'" "p = generate_pseudonym svc x' t'"
    unfolding consistent_def by blast
  from key_inj[OF assms(2) h(1) h(2)] h(3) show ?thesis by simp
qed

lemma consistent_update_cache:
  assumes "consistent svc st" "colon_free t"
  shows "consistent svc (st\<lparr>pseudonym_cache :=
           (pseudonym_cache st)(t @ '':'' @ x \<mapsto> generate_pseudonym svc x t)\<rparr>)"
  using assms unfolding consistent_def by auto

lemma consistent_update_mapping:
  assumes "consistent svc st"
  shows "consistent svc (st\<lparr>pseudonym_mapping :=
           (pseudonym_mapping st)((x, t) \<mapsto> generate_pseudonym svc x t)\<rparr>)"
  using assms unfolding consistent_def by auto

lemma get_or_create_consistent:
  assumes "consistent svc st" "colon_free t"
  shows "fst (get_or_create_pseudonym svc x t st) = generate_pseudonym svc x t
         \<and> consistent svc (snd (get_or_create_pseudonym svc x t st))"
proof (cases "pseudonym_cache st (t @ '':'' @ x)")
  case (Some p)
  with consistent_cache_hit[OF assms this] assms(1) show ?thesis
    by (simp add: get_or_create_pseudonym_def)
next
  case None
  let ?st1 = "snd (next_outcome st)"
  have c1: "consistent svc ?st1" using assms(1) by (simp add: consistent_next_outcome)
  show ?thesis
  proof (cases "fst (next_outcome st) = SelectFails")
    case True
    with None c1 show ?thesis
      by (simp add: get_or_create_pseudonym_def case_prod_unfold)
  next
    case False
    note nf = this
    show ?thesis
    proof (cases "pseudonym_mapping ?st1 (x, t)")
      case (Some p)
      with c1 have p: "p = generate_pseudonym svc x t" unfolding consistent_def by blast
      have "consistent svc (?st1\<lparr>pseudonym_cache :=
           (pseudonym_cache ?st1)(t @ '':'' @ x \<mapsto> generate_pseudonym svc x t)\<rparr>)"
        using c1 assms(2) by (rule consistent_update_cache)
      with None nf Some p show ?thesis
        by (simp add: get_or_create_pseudonym_def case_prod_unfold)
    next
      case None
      note nm = this
      show ?thesis
      proof (cases "fst (next_outcome st) = InsertFails")
        case True
        with \<open>pseudonym_cache st (t @ '':'' @ x) = None\<close> nf nm c1 show ?thesis
          by (simp add: get_or_create_pseudonym_def case_prod_unfold Let_def)
      next
        case False
        have "consistent svc (?st1\<lparr>pseudonym_mapping :=
           (pseudonym_mapping ?st1)((x, t) \<mapsto> generate_pseudonym svc x t)\<rparr>)"
          (is "consistent svc ?st2")
          using c1 by (rule consistent_update_mapping)
        then have "consistent svc (?st2\<lparr>pseudonym_cache :=
           (pseudonym_cache ?st2)(t @ '':'' @ x \<mapsto> generate_pseudonym svc x t)\<rparr>)"
          using assms(2) by (rule consistent_update_cache)
        with \<open>pseudonym_cache st (t @ '':'' @ x) = None\<close> nf nm False show ?thesis
          by (simp add: get_or_create_pseudonym_def case_prod_unfold Let_def)
      qed
    qed
  qed
qed







subsection \<open>Anonymization of a bundle\<close>

lemma anonymize_entry_unhandled:
  "entry_unhandled e \<Longrightarrow> anonymize_entry svc e st = (e, st)"
  by (auto simp: entry_unhandled_def handled_def anonymize_entry_def anonymize_resource_def
      split: option.splits)


lemma length_map_state: "length (fst (map_state f xs st)) = length xs"
  by (induction xs arbitrary: st) (simp_all add: case_prod_unfold)

lemma map_state_nth:
  "i < length xs \<Longrightarrow> \<exists>st'. fst (map_state f xs st) ! i = fst (f (xs ! i) st')"
proof (induction xs arbitrary: st i)
  case Nil
  then show ?case by simp
next
  case (Cons x xs)
  show ?case
  proof (cases i)
    case 0
    have "fst (map_state f (x # xs) st) ! 0 = fst (f ((x # xs) ! 0) st)"
      by (simp add: case_prod_unfold)
    with 0 show ?thesis by blast
  next
    case (Suc k)
    with Cons.prems have "k < length xs" by simp
    from Cons.IH[OF this] obtain st' where
      "fst (map_state f xs (snd (f x st))) ! k = fst (f (xs ! k) st')" by blast
    then have "fst (map_state f (x # xs) st) ! Suc k = fst (f ((x # xs) ! Suc k) st')"
      by (simp add: case_prod_unfold)
    with Suc show ?thesis by blast
  qed
qed


text \<open>
  Claim C9. In a bundle that loads, an entry whose resource type is none of Patient,
  Observation, Condition and MedicationRequest (or that has no resource) stands in the
  output at its position with the content it had; the output has as many entries as the
  input.
\<close>

theorem unknown_types_pass_through:
  assumes "loads_bundle svc bundle_json = Some b" "bundle_entries b = Some es"
    "i < length es" "entry_unhandled (es ! i)"
  shows "\<exists>es' st'. anonymize_bundle svc bundle_json st
             = (dumps_bundle svc (b\<lparr>bundle_entries := Some es'\<rparr>), st')
           \<and> length es' = length es \<and> es' ! i = es ! i"
proof -
  let ?r = "map_state (anonymize_entry svc) es st"
  have a: "anonymize_bundle svc bundle_json st
      = (dumps_bundle svc (b\<lparr>bundle_entries := Some (fst ?r)\<rparr>), snd ?r)"
    using assms(1,2) by (simp add: anonymize_bundle_def map_state_opt_def case_prod_unfold)
  have l: "length (fst ?r) = length es" by (rule length_map_state)
  from map_state_nth[OF assms(3), of "anonymize_entry svc" st] obtain st' where
    "fst ?r ! i = fst (anonymize_entry svc (es ! i) st')" by blast
  then have n: "fst ?r ! i = es ! i" using assms(4) by (simp add: anonymize_entry_unhandled)
  from a l n show ?thesis by blast
qed

theorem unknown_types_pass_through_witness:
  "\<exists>es' st'. anonymize_bundle sample_deid ''sample'' (initial_state [])
       = (dumps_bundle sample_deid
            (\<lparr>bundle_entries = Some sample_entries, bundle_rest = []\<rparr>
               \<lparr>bundle_entries := Some es'\<rparr>), st')
     \<and> length es' = length sample_entries \<and> es' ! 2 = sample_entries ! 2"
proof -
  have l: "loads_bundle sample_deid ''sample''
      = Some \<lparr>bundle_entries = Some sample_entries, bundle_rest = []\<rparr>"
    by (simp add: sample_deid_def)
  have b: "bundle_entries \<lparr>bundle_entries = Some sample_entries, bundle_rest = []\<rparr>
      = Some sample_entries" by simp
  have i: "2 < length sample_entries" by (simp add: sample_entries_def)
  have u: "entry_unhandled (sample_entries ! 2)"
    by (simp add: sample_entries_def entry_unhandled_def handled_def sample_report_def
        empty_resource_def)
  from unknown_types_pass_through[OF l b i u] show ?thesis .
qed

text \<open>
  Claim C10. When the input string does not load as a bundle, \<^verbatim>\<open>anonymize_bundle\<close>
  returns it unchanged and changes no state, and \<^verbatim>\<open>process_message\<close> publishes it as
  the anonymized bundle. Every message the service publishes carries the same source and
  event type and has no field that tells the two cases apart.
\<close>

theorem unparsed_bundle_published_raw:
  assumes "loads_bundle svc bundle_json = None"
  shows "anonymize_bundle svc bundle_json st = (bundle_json, st)
    \<and> (bundleId msg = Some bid \<and> bid \<noteq> [] \<and> bundle_of svc bid = Some bundle_json
         \<and> bundle_json \<noteq> []
       \<longrightarrow> fst (process_message svc msg st)
           = Some \<lparr>originalBundleId = bid,
                   patientPseudoId =
                     fst (get_or_create_pseudonym svc (py_str (patientId msg)) ''patient_id'' st),
                   anonymizedBundle = bundle_json, timestamp = now_ms svc,
                   source = ''deid-service'', eventType = ''fhir_data_anonymized''\<rparr>)
    \<and> (fst (process_message svc msg' st') = Some out
       \<longrightarrow> source out = ''deid-service'' \<and> eventType out = ''fhir_data_anonymized'')"
proof (intro conjI impI)
  show a: "anonymize_bundle svc bundle_json st = (bundle_json, st)"
    using assms by (simp add: anonymize_bundle_def)
  assume "bundleId msg = Some bid \<and> bid \<noteq> [] \<and> bundle_of svc bid = Some bundle_json
         \<and> bundle_json \<noteq> []"
  then show "fst (process_message svc msg st)
           = Some \<lparr>originalBundleId = bid,
                   patientPseudoId =
                     fst (get_or_create_pseudonym svc (py_str (patientId msg)) ''patient_id'' st),
                   anonymizedBundle = bundle_json, timestamp = now_ms svc,
                   source = ''deid-service'', eventType = ''fhir_data_anonymized''\<rparr>"
    using a by (simp add: process_message_def truthy_def Let_def case_prod_unfold)
next
  assume "fst (process_message svc msg' st') = Some out"
  then show "source out = ''deid-service''" "eventType out = ''fhir_data_anonymized''"
    by (auto simp: process_message_def Let_def case_prod_unfold split: if_splits)
qed

theorem unparsed_bundle_published_raw_witness:
  "anonymize_bundle sample_deid ''not a bundle'' (initial_state [])
     = (''not a bundle'', initial_state [])
   \<and> fst (process_message sample_deid \<lparr>bundleId = Some ''b1'', patientId = Some ''p1''\<rparr>
            (initial_state []))
     = Some \<lparr>originalBundleId = ''b1'',
             patientPseudoId =
               fst (get_or_create_pseudonym sample_deid
                      (py_str (patientId \<lparr>bundleId = Some ''b1'', patientId = Some ''p1''\<rparr>))
                      ''patient_id'' (initial_state [])),
             anonymizedBundle = ''not a bundle'', timestamp = now_ms sample_deid,
             source = ''deid-service'', eventType = ''fhir_data_anonymized''\<rparr>"
proof -
  have l: "loads_bundle sample_deid ''not a bundle'' = None" by (simp add: sample_deid_def)
  have h: "bundleId \<lparr>bundleId = Some ''b1'', patientId = Some ''p1''\<rparr> = Some ''b1''
      \<and> ''b1'' \<noteq> [] \<and> bundle_of sample_deid ''b1'' = Some ''not a bundle''
      \<and> ''not a bundle'' \<noteq> []"
    by (simp add: sample_deid_def)
  from unparsed_bundle_published_raw[OF l, of "initial_state []"
      "\<lparr>bundleId = Some ''b1'', patientId = Some ''p1''\<rparr>" "''b1''"] h
  show ?thesis by blast
qed



subsection \<open>Referential consistency\<close>

lemma no_slash_no_prefix: "CHR ''/'' \<notin> set s \<Longrightarrow> \<not> startswith s ''Patient/''"
proof
  assume a: "CHR ''/'' \<notin> set s" and b: "startswith s ''Patient/''"
  from b have e: "take (length ''Patient/'') s = ''Patient/''" unfolding startswith_def .
  have "CHR ''/'' \<in> set ''Patient/''" by simp
  then have "CHR ''/'' \<in> set (take (length ''Patient/'') s)" unfolding e .
  then have "CHR ''/'' \<in> set s" by (rule in_set_takeD)
  with a show False by simp
qed

lemma replace_all_no_slash: "CHR ''/'' \<notin> set s \<Longrightarrow> replace_all ''Patient/'' [] s = s"
proof (induction s)
  case Nil
  then show ?case by simp
next
  case (Cons c s)
  then have "\<not> startswith (c # s) ''Patient/''" by (intro no_slash_no_prefix) simp
  moreover from Cons have "replace_all ''Patient/'' [] s = s" by simp
  ultimately show ?case by (subst replace_all.simps) simp
qed

lemma replace_all_patient_ref:
  assumes "CHR ''/'' \<notin> set P"
  shows "replace_all ''Patient/'' [] (''Patient/'' @ P) = P"
proof -
  have "startswith (''Patient/'' @ P) ''Patient/''" by (simp add: startswith_def)
  then have "replace_all ''Patient/'' [] (''Patient/'' @ P)
      = replace_all ''Patient/'' [] (drop 8 (''Patient/'' @ P))"
    by (subst replace_all.simps) simp
  also have "\<dots> = replace_all ''Patient/'' [] P" by simp
  also have "\<dots> = P" using assms by (rule replace_all_no_slash)
  finally show ?thesis .
qed

lemma map_state_consistent:
  assumes "\<And>x st0. consistent svc st0 \<Longrightarrow> consistent svc (snd (f x st0))"
    and "consistent svc st"
  shows "consistent svc (snd (map_state f xs st))"
  using assms(2)
proof (induction xs arbitrary: st)
  case Nil
  then show ?case by simp
next
  case (Cons x xs)
  from Cons.prems have "consistent svc (snd (f x st))" by (rule assms(1))
  then have "consistent svc (snd (map_state f xs (snd (f x st))))" by (rule Cons.IH)
  then show ?case by (simp add: case_prod_unfold)
qed

lemma map_state_opt_consistent:
  assumes "\<And>x st0. consistent svc st0 \<Longrightarrow> consistent svc (snd (f x st0))"
    and "consistent svc st"
  shows "consistent svc (snd (map_state_opt f xs st))"
proof (cases xs)
  case None
  with assms(2) show ?thesis by (simp add: map_state_opt_def)
next
  case (Some l)
  have "consistent svc (snd (map_state f l st))"
    using assms by (rule map_state_consistent)
  with Some show ?thesis by (simp add: map_state_opt_def case_prod_unfold)
qed

lemma map_state_nth_consistent:
  assumes "\<And>x st0. consistent svc st0 \<Longrightarrow> consistent svc (snd (f x st0))"
    and "consistent svc st" "i < length xs"
  shows "\<exists>st'. consistent svc st' \<and> fst (map_state f xs st) ! i = fst (f (xs ! i) st')"
  using assms(2,3)
proof (induction xs arbitrary: st i)
  case Nil
  then show ?case by simp
next
  case (Cons x xs)
  show ?case
  proof (cases i)
    case 0
    have "fst (map_state f (x # xs) st) ! 0 = fst (f ((x # xs) ! 0) st)"
      by (simp add: case_prod_unfold)
    with 0 Cons.prems(1) show ?thesis by blast
  next
    case (Suc k)
    with Cons.prems have k: "k < length xs" by simp
    from Cons.prems(1) have "consistent svc (snd (f x st))" by (rule assms(1))
    from Cons.IH[OF this k] obtain st' where
      s: "consistent svc st'" "fst (map_state f xs (snd (f x st))) ! k = fst (f (xs ! k) st')"
      by blast
    from s(2) have "fst (map_state f (x # xs) st) ! Suc k = fst (f ((x # xs) ! Suc k) st')"
      by (simp add: case_prod_unfold)
    with Suc s(1) show ?thesis by blast
  qed
qed

lemma colon_free_types:
  "colon_free ''patient_id''" "colon_free ''patient_identifier''" "colon_free ''name''"
  "colon_free ''phone''" "colon_free ''email''" "colon_free ''practitioner_id''"
  by (simp_all add: colon_free_def)

lemma goc_snd: "consistent svc st \<Longrightarrow> colon_free t \<Longrightarrow>
    consistent svc (snd (get_or_create_pseudonym svc x t st))"
  using get_or_create_consistent by blast

lemma goc_fst: "consistent svc st \<Longrightarrow> colon_free t \<Longrightarrow>
    fst (get_or_create_pseudonym svc x t st) = generate_pseudonym svc x t"
  using get_or_create_consistent by blast

lemma anonymize_optional_consistent:
  "consistent svc st \<Longrightarrow> colon_free t \<Longrightarrow> consistent svc (snd (anonymize_optional svc t v st))"
  by (simp add: anonymize_optional_def case_prod_unfold goc_snd)

lemma anonymize_optional_result:
  "consistent svc st \<Longrightarrow> colon_free t \<Longrightarrow> v = Some x \<Longrightarrow> x \<noteq> [] \<Longrightarrow>
   fst (anonymize_optional svc t v st) = Some (generate_pseudonym svc x t)"
  by (simp add: anonymize_optional_def case_prod_unfold goc_fst truthy_def)

lemma anonymize_identifier_consistent:
  "consistent svc st \<Longrightarrow> consistent svc (snd (anonymize_identifier svc idf st))"
  by (simp add: anonymize_identifier_def case_prod_unfold anonymize_optional_consistent
      colon_free_types)

lemma anonymize_name_consistent:
  assumes "consistent svc st"
  shows "consistent svc (snd (anonymize_name svc nm st))"
proof -
  let ?st1 = "snd (anonymize_optional svc ''name'' (name_family nm) st)"
  have c1: "consistent svc ?st1"
    using assms by (simp add: anonymize_optional_consistent colon_free_types)
  have "consistent svc (snd (map_state (\<lambda>g. get_or_create_pseudonym svc g ''name'') gs ?st1))"
    for gs
    by (rule map_state_consistent) (simp_all add: goc_snd colon_free_types c1)
  with c1 show ?thesis
    by (simp add: anonymize_name_def case_prod_unfold split: option.splits)
qed

lemma anonymize_telecom_consistent:
  "consistent svc st \<Longrightarrow> consistent svc (snd (anonymize_telecom svc tc st))"
  by (simp add: anonymize_telecom_def case_prod_unfold goc_snd colon_free_types)

lemma anonymize_reference_consistent:
  "consistent svc st \<Longrightarrow> colon_free t \<Longrightarrow>
   consistent svc (snd (anonymize_reference svc pre t r st))"
  by (simp add: anonymize_reference_def case_prod_unfold goc_snd)

lemma anonymize_reference_opt_consistent:
  "consistent svc st \<Longrightarrow> colon_free t \<Longrightarrow>
   consistent svc (snd (anonymize_reference_opt svc pre t r st))"
  by (simp add: anonymize_reference_opt_def case_prod_unfold anonymize_reference_consistent
      split: option.splits)

lemma anonymize_patient_consistent:
  assumes "consistent svc st"
  shows "consistent svc (snd (anonymize_patient_resource svc r st))"
proof (cases "accepts svc ''Patient'' r")
  case False
  with assms show ?thesis by (simp add: anonymize_patient_resource_def)
next
  case True
  let ?s1 = "snd (anonymize_optional svc ''patient_id'' (res_id r) st)"
  let ?s2 = "snd (map_state_opt (anonymize_identifier svc) (res_identifiers r) ?s1)"
  let ?s3 = "snd (map_state_opt (anonymize_name svc) (res_names r) ?s2)"
  let ?s4 = "snd (map_state_opt (anonymize_telecom svc) (res_telecom r) ?s3)"
  have c1: "consistent svc ?s1"
    using assms by (simp add: anonymize_optional_consistent colon_free_types)
  have c2: "consistent svc ?s2"
    by (rule map_state_opt_consistent) (simp_all add: anonymize_identifier_consistent c1)
  have c3: "consistent svc ?s3"
    by (rule map_state_opt_consistent) (simp_all add: anonymize_name_consistent c2)
  have c4: "consistent svc ?s4"
    by (rule map_state_opt_consistent) (simp_all add: anonymize_telecom_consistent c3)
  have "snd (anonymize_patient_resource svc r st) = ?s4"
    using True by (simp add: anonymize_patient_resource_def case_prod_unfold)
  with c4 show ?thesis by simp
qed

lemma anonymize_patient_id:
  assumes "consistent svc st" "accepts svc ''Patient'' r" "res_id r = Some P" "P \<noteq> []"
  shows "res_id (fst (anonymize_patient_resource svc r st))
         = Some (generate_pseudonym svc P ''patient_id'')"
proof -
  have "fst (anonymize_optional svc ''patient_id'' (res_id r) st)
      = Some (generate_pseudonym svc P ''patient_id'')"
    using assms(1,3,4) by (simp add: anonymize_optional_result colon_free_types)
  then show ?thesis
    using assms(2) by (simp add: anonymize_patient_resource_def case_prod_unfold)
qed

lemma anonymize_observation_consistent:
  assumes "consistent svc st"
  shows "consistent svc (snd (anonymize_observation_resource svc r st))"
proof (cases "accepts svc ''Observation'' r")
  case False
  with assms show ?thesis by (simp add: anonymize_observation_resource_def)
next
  case True
  let ?s1 = "snd (anonymize_reference_opt svc ''Patient/'' ''patient_id'' (res_subject r) st)"
  have c1: "consistent svc ?s1"
    using assms by (simp add: anonymize_reference_opt_consistent colon_free_types)
  have "consistent svc (snd (map_state_opt
      (anonymize_reference svc ''Practitioner/'' ''practitioner_id'') (res_performer r) ?s1))"
    by (rule map_state_opt_consistent)
       (simp_all add: anonymize_reference_consistent colon_free_types c1)
  then show ?thesis
    using True by (simp add: anonymize_observation_resource_def case_prod_unfold)
qed

lemma anonymize_condition_consistent:
  "consistent svc st \<Longrightarrow> consistent svc (snd (anonymize_condition_resource svc r st))"
  by (simp add: anonymize_condition_resource_def case_prod_unfold
      anonymize_reference_opt_consistent colon_free_types)

lemma anonymize_medication_consistent:
  "consistent svc st \<Longrightarrow> consistent svc (snd (anonymize_medication_request_resource svc r st))"
  by (simp add: anonymize_medication_request_resource_def case_prod_unfold
      anonymize_reference_opt_consistent colon_free_types)

lemma anonymize_resource_consistent:
  "consistent svc st \<Longrightarrow> consistent svc (snd (anonymize_resource svc r st))"
  by (simp add: anonymize_resource_def anonymize_patient_consistent
      anonymize_observation_consistent anonymize_condition_consistent
      anonymize_medication_consistent)

lemma anonymize_entry_consistent:
  "consistent svc st \<Longrightarrow> consistent svc (snd (anonymize_entry svc e st))"
  by (simp add: anonymize_entry_def case_prod_unfold anonymize_resource_consistent
      split: option.splits)

lemma anonymize_subject:
  assumes "consistent svc st" "res_subject r = Some sref"
    "ref_reference sref = Some (''Patient/'' @ P)" "CHR ''/'' \<notin> set P"
  shows "fst (anonymize_reference_opt svc ''Patient/'' ''patient_id'' (res_subject r) st)
         = Some (sref\<lparr>ref_reference := Some (''Patient/'' @ generate_pseudonym svc P ''patient_id'')\<rparr>)"
proof -
  have s: "startswith (''Patient/'' @ P) ''Patient/''" by (simp add: startswith_def)
  have t: "truthy (ref_reference sref)" using assms(3) by (simp add: truthy_def)
  have g: "fst (get_or_create_pseudonym svc P ''patient_id'' st)
      = generate_pseudonym svc P ''patient_id''"
    using assms(1) by (simp add: goc_fst colon_free_types)
  have "fst (anonymize_reference svc ''Patient/'' ''patient_id'' sref st)
      = sref\<lparr>ref_reference := Some (''Patient/'' @ generate_pseudonym svc P ''patient_id'')\<rparr>"
    unfolding anonymize_reference_def
    using s t g assms(3) replace_all_patient_ref[OF assms(4)]
    by (simp add: case_prod_unfold)
  then show ?thesis using assms(2) by (simp add: anonymize_reference_opt_def case_prod_unfold)
qed

lemma anonymize_referencing_resource:
  assumes "consistent svc st" "resourceType r = Some cls"
    "cls = ''Observation'' \<or> cls = ''Condition'' \<or> cls = ''MedicationRequest''"
    "accepts svc cls r" "res_subject r = Some sref"
    "ref_reference sref = Some (''Patient/'' @ P)" "CHR ''/'' \<notin> set P"
  shows "res_subject (fst (anonymize_resource svc r st))
         = Some (sref\<lparr>ref_reference := Some (''Patient/'' @ generate_pseudonym svc P ''patient_id'')\<rparr>)"
  using assms(2,3,4) anonymize_subject[OF assms(1,5,6,7)]
  by (auto simp: anonymize_resource_def anonymize_observation_resource_def
      anonymize_condition_resource_def anonymize_medication_request_resource_def
      case_prod_unfold)


text \<open>
  Claim C2 as stated fails where the referencing resource's own anonymizer fails: in the
  sample bundle the patient p1 becomes PATIENT_163571 while the observation, which the
  Observation constructor rejects, keeps its subject reference Patient/p1.
\<close>

theorem referential_consistency_counterexample:
  "entry_resource (fst (anonymize_entries sample_deid sample_entries (initial_state [])) ! 0)
     = Some (sample_patient\<lparr>res_id := Some ''PATIENT_163571''\<rparr>)
   \<and> entry_resource (fst (anonymize_entries sample_deid sample_entries (initial_state [])) ! 1)
     = Some sample_observation
   \<and> res_subject sample_observation
     = Some \<lparr>ref_reference = Some ''Patient/p1'', ref_rest = []\<rparr>"
  by (simp add: anonymize_entries_def sample_entries_def anonymize_entry_def
      anonymize_resource_def anonymize_patient_resource_def anonymize_observation_resource_def
      anonymize_optional_def map_state_opt_def truthy_def
      get_or_create_pseudonym_def next_outcome_def initial_state_def generate_pseudonym_def
      sample_deid_def sample_patient_def sample_observation_def sample_report_def
      empty_resource_def recorded_sha256_def int_of_hex_def hex_value_def digit_char_def
      Let_def)

text \<open>
  Claim C2, as amended. On a consistent store, for a bundle with a Patient resource of
  the non-empty id P without a slash that its constructor accepts, and an Observation,
  Condition or MedicationRequest that its constructor accepts and whose subject reference
  is Patient/P: after anonymization the Patient's id is the pseudonym of P for the type
  patient_id, and the subject reference of the referencing resource is Patient/ followed
  by that same pseudonym, which is what \<^verbatim>\<open>get_or_create_pseudonym\<close> returns for P before
  and after the bundle.
\<close>

theorem referential_consistency:
  assumes "consistent svc st"
    and "i < length es" "entry_resource (es ! i) = Some rp"
    and "resourceType rp = Some ''Patient''" "accepts svc ''Patient'' rp"
    and "res_id rp = Some P" "P \<noteq> []" "CHR ''/'' \<notin> set P"
    and "j < length es" "entry_resource (es ! j) = Some ro"
    and "resourceType ro = Some cls"
    and "cls = ''Observation'' \<or> cls = ''Condition'' \<or> cls = ''MedicationRequest''"
    and "accepts svc cls ro"
    and "res_subject ro = Some sref" "ref_reference sref = Some (''Patient/'' @ P)"
  shows "\<exists>rp' ro' sref'.
      entry_resource (fst (anonymize_entries svc es st) ! i) = Some rp'
      \<and> res_id rp' = Some (generate_pseudonym svc P ''patient_id'')
      \<and> entry_resource (fst (anonymize_entries svc es st) ! j) = Some ro'
      \<and> res_subject ro' = Some sref'
      \<and> ref_reference sref' = Some (''Patient/'' @ generate_pseudonym svc P ''patient_id'')
      \<and> fst (get_or_create_pseudonym svc P ''patient_id'' st)
          = generate_pseudonym svc P ''patient_id''
      \<and> fst (get_or_create_pseudonym svc P ''patient_id''
               (snd (anonymize_entries svc es st)))
          = generate_pseudonym svc P ''patient_id''"
proof -
  let ?out = "fst (anonymize_entries svc es st)"
  let ?p = "generate_pseudonym svc P ''patient_id''"
  have pres: "\<And>x st0. consistent svc st0 \<Longrightarrow> consistent svc (snd (anonymize_entry svc x st0))"
    by (rule anonymize_entry_consistent)
  have rp_ne: "rp \<noteq> empty_resource" using assms(4) by (auto simp: empty_resource_def)
  have ro_ne: "ro \<noteq> empty_resource" using assms(11) by (auto simp: empty_resource_def)
  from map_state_nth_consistent[of svc "anonymize_entry svc", OF pres assms(1,2)]
  obtain sti where sti: "consistent svc sti"
    "?out ! i = fst (anonymize_entry svc (es ! i) sti)"
    unfolding anonymize_entries_def by blast
  from map_state_nth_consistent[of svc "anonymize_entry svc", OF pres assms(1,9)]
  obtain stj where stj: "consistent svc stj"
    "?out ! j = fst (anonymize_entry svc (es ! j) stj)"
    unfolding anonymize_entries_def by blast
  let ?rp' = "fst (anonymize_resource svc rp sti)"
  let ?ro' = "fst (anonymize_resource svc ro stj)"
  let ?sref' = "sref\<lparr>ref_reference := Some (''Patient/'' @ ?p)\<rparr>"
  have ei: "entry_resource (?out ! i) = Some ?rp'"
    using sti(2) assms(3) rp_ne by (simp add: anonymize_entry_def case_prod_unfold)
  have ej: "entry_resource (?out ! j) = Some ?ro'"
    using stj(2) assms(10) ro_ne by (simp add: anonymize_entry_def case_prod_unfold)
  have "?rp' = fst (anonymize_patient_resource svc rp sti)"
    using assms(4) by (simp add: anonymize_resource_def)
  then have pid: "res_id ?rp' = Some ?p"
    using anonymize_patient_id[OF sti(1) assms(5,6,7)] by simp
  have subj: "res_subject ?ro' = Some ?sref'"
    using stj(1) assms(11,12,13,14,15,8) by (rule anonymize_referencing_resource)
  have r: "ref_reference ?sref' = Some (''Patient/'' @ ?p)" by simp
  have g0: "fst (get_or_create_pseudonym svc P ''patient_id'' st) = ?p"
    using assms(1) by (simp add: goc_fst colon_free_types)
  have "consistent svc (snd (anonymize_entries svc es st))"
    unfolding anonymize_entries_def using pres assms(1) by (rule map_state_consistent)
  then have g1: "fst (get_or_create_pseudonym svc P ''patient_id''
      (snd (anonymize_entries svc es st))) = ?p"
    by (simp add: goc_fst colon_free_types)
  from ei pid ej subj r g0 g1 show ?thesis by blast
qed

theorem referential_consistency_witness:
  "\<exists>rp' ro' sref'.
      entry_resource (fst (anonymize_entries sample_deid
          [\<lparr>entry_resource = Some sample_patient, entry_rest = []\<rparr>,
           \<lparr>entry_resource = Some sample_observation_ok, entry_rest = []\<rparr>]
          (initial_state [])) ! 0) = Some rp'
      \<and> res_id rp' = Some (generate_pseudonym sample_deid ''p1'' ''patient_id'')
      \<and> entry_resource (fst (anonymize_entries sample_deid
          [\<lparr>entry_resource = Some sample_patient, entry_rest = []\<rparr>,
           \<lparr>entry_resource = Some sample_observation_ok, entry_rest = []\<rparr>]
          (initial_state [])) ! 1) = Some ro'
      \<and> res_subject ro' = Some sref'
      \<and> ref_reference sref'
          = Some (''Patient/'' @ generate_pseudonym sample_deid ''p1'' ''patient_id'')"
proof -
  let ?es = "[\<lparr>entry_resource = Some sample_patient, entry_rest = []\<rparr>,
           \<lparr>entry_resource = Some sample_observation_ok, entry_rest = []\<rparr>]"
  have c: "consistent sample_deid (initial_state [])"
    by (simp add: consistent_def initial_state_def)
  have i: "0 < length ?es" by simp
  have ri: "entry_resource (?es ! 0) = Some sample_patient" by simp
  have ti: "resourceType sample_patient = Some ''Patient''"
    by (simp add: sample_patient_def empty_resource_def)
  have ai: "accepts sample_deid ''Patient'' sample_patient"
    by (simp add: sample_deid_def sample_patient_def empty_resource_def)
  have pi: "res_id sample_patient = Some ''p1''"
    by (simp add: sample_patient_def empty_resource_def)
  have ne: "''p1'' \<noteq> []" by simp
  have ns: "CHR ''/'' \<notin> set ''p1''" by simp
  have j: "1 < length ?es" by simp
  have rj: "entry_resource (?es ! 1) = Some sample_observation_ok" by simp
  have tj: "resourceType sample_observation_ok = Some ''Observation''"
    by (simp add: sample_observation_ok_def sample_observation_def empty_resource_def)
  have cl: "''Observation'' = ''Observation'' \<or> ''Observation'' = ''Condition''
      \<or> ''Observation'' = ''MedicationRequest''" by simp
  have aj: "accepts sample_deid ''Observation'' sample_observation_ok"
    by (simp add: sample_deid_def sample_observation_ok_def)
  have sj: "res_subject sample_observation_ok
      = Some \<lparr>ref_reference = Some ''Patient/p1'', ref_rest = []\<rparr>"
    by (simp add: sample_observation_ok_def sample_observation_def empty_resource_def)
  have rr: "ref_reference \<lparr>ref_reference = Some ''Patient/p1'', ref_rest = []\<rparr>
      = Some (''Patient/'' @ ''p1'')" by simp
  from referential_consistency[OF c i ri ti ai pi ne ns j rj tj cl aj sj rr]
  show ?thesis by blast
qed

end
